theory Spec2Isabelle
  imports Complex_Main "HOL-Library.Char_ord" "HOL-Library.List_Lexorder"
begin

section \<open>Travel expense ledger: data model\<close>

text \<open>
  The program keeps expenses as Python dictionaries inside \<open>ExpenseDatabase.data\<close>
  (file \<open>bot/database.py\<close>) and exchange rates inside \<open>CurrencyConverter\<close>
  (file \<open>bot/currency.py\<close>); the chat commands of \<open>bot/commands.py\<close> combine both.

  Modelling decisions.
  \<^item> Python floats are modelled as \<^typ>\<open>real\<close>: rounding, infinities and NaN are not
    represented. Float division by zero raises \<open>ZeroDivisionError\<close>; that is kept.
  \<^item> Exchange rates are read from JSON documents, so a rate entry is a number or
    \<open>null\<close>; arithmetic on \<open>null\<close> raises \<open>TypeError\<close>, and that is kept.
  \<^item> Strings are \<^typ>\<open>string\<close>, ordered lexicographically by character code, as Python
    orders \<open>str\<close>.
  \<^item> An expense dictionary is a record with one field per key the program writes. The
    key \<open>documents\<close> may be missing from a dictionary loaded from disk, and the code
    tests for it, so that field is an option.
  \<^item> The clock, the remote rate services and the outcome of each file write are inputs
    of the operation that consults them.
\<close>

datatype py_error = ZeroDivisionError | TypeError

record document =
  filename :: string
  filepath :: string
  doc_size :: nat
  uploaded_at :: string

record expense =
  ident :: int
  city :: string
  activity :: string
  category :: string
  date :: string
  original_amount :: real
  original_currency :: string
  total_rmb :: real
  payer :: string
  sunil_rmb :: real
  shirin_rmb :: real
  sunil_gbp :: real
  shirin_aed :: real
  notes_str :: string
  documents :: "document list option"
  created_at :: string

text \<open>The dictionary \<open>self.data\<close> of the database.\<close>

record store_data =
  expenses :: "expense list"
  next_id :: int
  data_created_at :: string
  data_last_updated :: string

text \<open>
  The database object: the dictionary in memory and the content of the JSON file
  (\<open>None\<close> while the file holds no complete document).
\<close>

record database =
  data :: store_data
  db_file :: "store_data option"

text \<open>
  What happens to one attempt to write a file. \<open>save_data\<close> and \<open>save_rates\<close> open
  the file for writing, which empties it, and then dump the dictionary, all inside a
  \<open>try\<close> whose handler prints the exception. The attempt succeeds, or the open raises
  and the file is as it was, or the dump raises and the file holds no complete document.
\<close>

datatype write_outcome = Write_ok | Open_fails | Dump_fails

definition written :: "write_outcome \<Rightarrow> 'a \<Rightarrow> 'a option \<Rightarrow> 'a option" where
  "written w content file =
     (case w of Write_ok \<Rightarrow> Some content | Open_fails \<Rightarrow> file | Dump_fails \<Rightarrow> None)"

section \<open>The expense database (\<open>bot/database.py\<close>)\<close>

definition save_data :: "string \<Rightarrow> write_outcome \<Rightarrow> database \<Rightarrow> database" where
  "save_data now w db =
     (let d = (data db)\<lparr>data_last_updated := now\<rparr>
      in db\<lparr>data := d, db_file := written w d (db_file db)\<rparr>)"

definition get_next_id :: "database \<Rightarrow> int \<times> database" where
  "get_next_id db =
     (next_id (data db), db\<lparr>data := (data db)\<lparr>next_id := next_id (data db) + 1\<rparr>\<rparr>)"

text \<open>
  \<open>add_expense\<close> appends and saves inside a \<open>try\<close>; neither the append nor
  \<open>save_data\<close> (which catches its own exceptions) raises, so the handler that would
  return \<open>False\<close> is never entered.
\<close>

definition db_add_expense :: "string \<Rightarrow> write_outcome \<Rightarrow> expense \<Rightarrow> database \<Rightarrow> bool \<times> database" where
  "db_add_expense now w e db =
     (True, save_data now w (db\<lparr>data := (data db)\<lparr>expenses := expenses (data db) @ [e]\<rparr>\<rparr>))"

fun find_expense :: "int \<Rightarrow> expense list \<Rightarrow> expense option" where
  "find_expense i [] = None"
| "find_expense i (e # es) = (if ident e = i then Some e else find_expense i es)"

definition get_expense_by_id :: "int \<Rightarrow> database \<Rightarrow> expense option" where
  "get_expense_by_id i db = find_expense i (expenses (data db))"

subsection \<open>Filtered listing\<close>

text \<open>
  The tests \<open>if city and expense['city'] != city\<close> and its three siblings: an absent
  filter (\<open>None\<close>) and the empty string are both falsy.
\<close>

fun differs_from :: "string option \<Rightarrow> string \<Rightarrow> bool" where
  "differs_from None v = False"
| "differs_from (Some f) v = (f \<noteq> [] \<and> v \<noteq> f)"

fun before_start :: "string option \<Rightarrow> string \<Rightarrow> bool" where
  "before_start None d = False"
| "before_start (Some s) d = (s \<noteq> [] \<and> d < s)"

fun after_end :: "string option \<Rightarrow> string \<Rightarrow> bool" where
  "after_end None d = False"
| "after_end (Some s) d = (s \<noteq> [] \<and> d > s)"

fun filter_loop ::
  "string option \<Rightarrow> string option \<Rightarrow> string option \<Rightarrow> string option \<Rightarrow>
   expense list \<Rightarrow> expense list" where
  "filter_loop c g s t [] = []"
| "filter_loop c g s t (e # es) =
     (if differs_from c (city e) then filter_loop c g s t es
      else if differs_from g (category e) then filter_loop c g s t es
      else if before_start s (date e) then filter_loop c g s t es
      else if after_end t (date e) then filter_loop c g s t es
      else e # filter_loop c g s t es)"

text \<open>
  \<open>list.sort(key=..., reverse=True)\<close>: a stable sort into descending key order.
  Python obtains it by reversing the list, sorting stably ascending and reversing again;
  \<^const>\<open>sort_key\<close> is a stable insertion sort.
\<close>

definition sort_reverse :: "('a \<Rightarrow> 'k::linorder) \<Rightarrow> 'a list \<Rightarrow> 'a list" where
  "sort_reverse f xs = rev (sort_key f (rev xs))"

definition get_expenses ::
  "string option \<Rightarrow> string option \<Rightarrow> string option \<Rightarrow> string option \<Rightarrow>
   database \<Rightarrow> expense list" where
  "get_expenses c g s t db = sort_reverse date (filter_loop c g s t (expenses (data db)))"

subsection \<open>Updating and deleting\<close>

text \<open>
  The \<open>updates\<close> dictionary handed to \<open>update_expense\<close>: one typed assignment per
  key, in the dictionary's insertion order.
\<close>

datatype upd =
    Set_activity string
  | Set_category string
  | Set_city string
  | Set_payer string
  | Set_date string
  | Set_notes string
  | Set_original_amount real
  | Set_original_currency string
  | Set_total_rmb real
  | Set_sunil_rmb real
  | Set_sunil_gbp real
  | Set_shirin_rmb real
  | Set_shirin_aed real

fun assign :: "upd \<Rightarrow> expense \<Rightarrow> expense" where
  "assign (Set_activity v) e = e\<lparr>activity := v\<rparr>"
| "assign (Set_category v) e = e\<lparr>category := v\<rparr>"
| "assign (Set_city v) e = e\<lparr>city := v\<rparr>"
| "assign (Set_payer v) e = e\<lparr>payer := v\<rparr>"
| "assign (Set_date v) e = e\<lparr>date := v\<rparr>"
| "assign (Set_notes v) e = e\<lparr>notes_str := v\<rparr>"
| "assign (Set_original_amount v) e = e\<lparr>original_amount := v\<rparr>"
| "assign (Set_original_currency v) e = e\<lparr>original_currency := v\<rparr>"
| "assign (Set_total_rmb v) e = e\<lparr>total_rmb := v\<rparr>"
| "assign (Set_sunil_rmb v) e = e\<lparr>sunil_rmb := v\<rparr>"
| "assign (Set_sunil_gbp v) e = e\<lparr>sunil_gbp := v\<rparr>"
| "assign (Set_shirin_rmb v) e = e\<lparr>shirin_rmb := v\<rparr>"
| "assign (Set_shirin_aed v) e = e\<lparr>shirin_aed := v\<rparr>"

text \<open>\<open>for key, value in updates.items(): expense[key] = value\<close>\<close>

fun assign_all :: "upd list \<Rightarrow> expense \<Rightarrow> expense" where
  "assign_all [] e = e"
| "assign_all (u # us) e = assign_all us (assign u e)"

text \<open>The loop of \<open>update_expense\<close>: the first record with the id; \<open>None\<close> when there is none.\<close>

fun update_first :: "int \<Rightarrow> upd list \<Rightarrow> expense list \<Rightarrow> expense list option" where
  "update_first i us [] = None"
| "update_first i us (e # es) =
     (if ident e = i then Some (assign_all us e # es)
      else map_option ((#) e) (update_first i us es))"

definition update_expense ::
  "string \<Rightarrow> write_outcome \<Rightarrow> int \<Rightarrow> upd list \<Rightarrow> database \<Rightarrow> bool \<times> database" where
  "update_expense now w i us db =
     (case update_first i us (expenses (data db)) of
        None \<Rightarrow> (False, db)
      | Some es \<Rightarrow> (True, save_data now w (db\<lparr>data := (data db)\<lparr>expenses := es\<rparr>\<rparr>)))"

definition delete_expense :: "string \<Rightarrow> write_outcome \<Rightarrow> int \<Rightarrow> database \<Rightarrow> bool \<times> database" where
  "delete_expense now w i db =
     (let original_count = length (expenses (data db));
          db' = db\<lparr>data := (data db)\<lparr>expenses := filter (\<lambda>e. ident e \<noteq> i) (expenses (data db))\<rparr>\<rparr>
      in if length (expenses (data db')) < original_count
         then (True, save_data now w db') else (False, db'))"

subsection \<open>Documents\<close>

text \<open>
  \<open>add_document_to_expense\<close> looks the record up with \<open>get_expense_by_id\<close> (the first
  one with the id) and appends to its document list in place, creating the list when the
  key is missing.
\<close>

fun add_document_loop :: "int \<Rightarrow> document \<Rightarrow> expense list \<Rightarrow> expense list option" where
  "add_document_loop i info [] = None"
| "add_document_loop i info (e # es) =
     (if ident e = i then
        Some (e\<lparr>documents := Some ((case documents e of None \<Rightarrow> [] | Some ds \<Rightarrow> ds) @ [info])\<rparr> # es)
      else map_option ((#) e) (add_document_loop i info es))"

definition add_document_to_expense ::
  "string \<Rightarrow> write_outcome \<Rightarrow> int \<Rightarrow> document \<Rightarrow> database \<Rightarrow> bool \<times> database" where
  "add_document_to_expense now w i info db =
     (case add_document_loop i info (expenses (data db)) of
        None \<Rightarrow> (False, db)
      | Some es \<Rightarrow> (True, save_data now w (db\<lparr>data := (data db)\<lparr>expenses := es\<rparr>\<rparr>)))"

text \<open>
  The loop of \<open>delete_document\<close>. It stops at the first record that has the id and a
  \<open>documents\<close> key, rebuilds that list without the entries of the given filename, saves
  and returns \<open>True\<close>; a record with the id but without the key is passed over. The
  result is \<open>None\<close> when the loop ends without returning.
\<close>

fun delete_document_loop :: "int \<Rightarrow> string \<Rightarrow> expense list \<Rightarrow> expense list option" where
  "delete_document_loop i name [] = None"
| "delete_document_loop i name (e # es) =
     (if ident e = i then
        (case documents e of
           Some ds \<Rightarrow> Some (e\<lparr>documents := Some (filter (\<lambda>doc. filename doc \<noteq> name) ds)\<rparr> # es)
         | None \<Rightarrow> map_option ((#) e) (delete_document_loop i name es))
      else map_option ((#) e) (delete_document_loop i name es))"

definition delete_document ::
  "string \<Rightarrow> write_outcome \<Rightarrow> int \<Rightarrow> string \<Rightarrow> database \<Rightarrow> bool \<times> database" where
  "delete_document now w i name db =
     (case delete_document_loop i name (expenses (data db)) of
        None \<Rightarrow> (False, db)
      | Some es \<Rightarrow> (True, save_data now w (db\<lparr>data := (data db)\<lparr>expenses := es\<rparr>\<rparr>)))"

subsection \<open>Export, import, clear\<close>

text \<open>
  The dictionary returned by \<open>export_data\<close> and accepted by \<open>import_data\<close>; the key
  \<open>data\<close> may be missing from a dictionary that is imported.
\<close>

record backup_doc =
  backup_data :: "store_data option"
  export_timestamp :: string
  export_version :: string

definition export_data :: "string \<Rightarrow> database \<Rightarrow> backup_doc" where
  "export_data now db =
     \<lparr>backup_data = Some (data db), export_timestamp = now, export_version = ''1.0''\<rparr>"

definition import_data :: "string \<Rightarrow> write_outcome \<Rightarrow> backup_doc \<Rightarrow> database \<Rightarrow> bool \<times> database" where
  "import_data now w imported db =
     (case backup_data imported of
        Some d \<Rightarrow> (True, save_data now w (db\<lparr>data := d\<rparr>))
      | None \<Rightarrow> (False, db))"

text \<open>
  \<open>clear_all_data\<close> binds \<open>self.data\<close> to a new dictionary; a dictionary exported
  before is a different object and keeps its content.
\<close>

definition clear_all_data :: "string \<Rightarrow> write_outcome \<Rightarrow> database \<Rightarrow> bool \<times> database" where
  "clear_all_data now w db =
     (True, save_data now w
        (db\<lparr>data := \<lparr>expenses = [], next_id = 1, data_created_at = now, data_last_updated = now\<rparr>\<rparr>))"

section \<open>The rate cache (\<open>bot/currency.py\<close>)\<close>

text \<open>
  \<open>rates\<close> maps a currency code to the number of units of that currency per yuan.
  The entries come from JSON documents (the rate file, the answers of the rate services),
  so an entry need not be a number. A rate value is a number (a JSON number; \<open>true\<close>
  and \<open>false\<close> are the numbers 1 and 0 to Python) or \<open>Null\<close>, the JSON \<open>null\<close>,
  Python's \<open>None\<close>: formatting it with \<open>:.4f\<close> and every arithmetic operation on it
  raise \<open>TypeError\<close>, and it is unequal to 0. A JSON object behaves like \<open>Null\<close> in
  every operation modelled here. JSON strings and arrays fail the format in the same
  way but differ in the product \<open>0 * rate\<close> of \<open>/edit-expense\<close>; they are not
  represented.
\<close>

datatype rate_value = Num real | Null

type_synonym rate_table = "string \<rightharpoonup> rate_value"

record converter =
  rates :: rate_table
  last_updated :: "string option"
  rates_file :: "(rate_table \<times> string option) option"

text \<open>
  The answer of a remote rate service to one request: the request raises, or it returns
  a status code and a body. The body is \<open>None\<close> when \<open>response.json()\<close> or the reading
  of its \<open>rates\<close> entry raises, and otherwise the \<open>rates\<close> mapping it holds (empty when
  the key is missing).
\<close>

datatype response = Request_error | Http nat "rate_table option"

text \<open>
  The surroundings of one operation: the clock (\<open>datetime.now()\<close> in seconds, its ISO
  text and its \<open>%Y-%m-%d\<close> text; one reading serves the whole operation), the two
  library parsers the code calls
  (\<open>datetime.fromisoformat\<close>, \<open>None\<close> for \<open>ValueError\<close>; whether
  \<open>datetime.strptime(s, "%Y-%m-%d")\<close> succeeds), the answers of the primary and the backup
  rate service, and the outcomes of writing the rate file (in the attempt on the primary
  service and in the attempt on the backup service) and the expense file.
\<close>

record env =
  clock :: real
  now_iso :: string
  today :: string
  fromisoformat :: "string \<Rightarrow> real option"
  strptime_ok :: "string \<Rightarrow> bool"
  primary :: response
  backup :: response
  rates_write :: write_outcome
  rates_write_backup :: write_outcome
  db_write :: write_outcome

text \<open>\<open>d.get(k, default)\<close>: a key that is present with the value \<open>None\<close> yields \<open>None\<close>.\<close>

definition get_or :: "rate_table \<Rightarrow> string \<Rightarrow> rate_value \<Rightarrow> rate_value" where
  "get_or m k dflt = (case m k of None \<Rightarrow> dflt | Some v \<Rightarrow> v)"

text \<open>Arithmetic on a rate value: \<open>v != 0\<close>, \<open>a / v\<close>, \<open>a * v\<close> and whether \<open>f"{v:.4f}"\<close> succeeds.\<close>

fun ne_zero :: "rate_value \<Rightarrow> bool" where
  "ne_zero (Num r) = (r \<noteq> 0)"
| "ne_zero Null = True"

fun py_div :: "real \<Rightarrow> rate_value \<Rightarrow> py_error + real" where
  "py_div a (Num b) = (if b = 0 then Inl ZeroDivisionError else Inr (a / b))"
| "py_div a Null = Inl TypeError"

fun py_mul :: "real \<Rightarrow> rate_value \<Rightarrow> py_error + real" where
  "py_mul a (Num b) = Inr (a * b)"
| "py_mul a Null = Inl TypeError"

fun formats :: "rate_value \<Rightarrow> bool" where
  "formats (Num r) = True"
| "formats Null = False"

definition save_rates :: "write_outcome \<Rightarrow> converter \<Rightarrow> converter" where
  "save_rates w cv = cv\<lparr>rates_file := written w (rates cv, last_updated cv) (rates_file cv)\<rparr>"

text \<open>
  The first three statements of the \<open>status_code == 200\<close> branch, the same for both
  services: \<open>self.rates\<close> is replaced, \<open>self.last_updated\<close> is set and the rate file is
  written.
\<close>

definition install_rates :: "env \<Rightarrow> write_outcome \<Rightarrow> rate_table \<Rightarrow> converter \<Rightarrow> converter" where
  "install_rates ev w rates_data cv =
     save_rates w
       (cv\<lparr>rates :=
            [''GBP'' \<mapsto> get_or rates_data ''GBP'' (get_or (rates cv) ''GBP'' (Num 0.11)),
             ''AED'' \<mapsto> get_or rates_data ''AED'' (get_or (rates cv) ''AED'' (Num 0.52)),
             ''USD'' \<mapsto> get_or rates_data ''USD'' (get_or (rates cv) ''USD'' (Num 0.14)),
             ''EUR'' \<mapsto> get_or rates_data ''EUR'' (get_or (rates cv) ''EUR'' (Num 0.13))],
          last_updated := Some (now_iso ev)\<rparr>)"

text \<open>
  The fourth statement: the \<open>print\<close> that formats \<open>self.rates['GBP']\<close> and
  \<open>self.rates['AED']\<close> with \<open>:.4f\<close>. It raises when one of them is not a number.
\<close>

definition prints_rates :: "converter \<Rightarrow> bool" where
  "prints_rates cv =
     (case rates cv ''GBP'' of
        None \<Rightarrow> False
      | Some gbp \<Rightarrow> (case rates cv ''AED'' of None \<Rightarrow> False | Some aed \<Rightarrow> formats gbp \<and> formats aed))"

text \<open>
  One \<open>try\<close> block of \<open>fetch_live_rates\<close>: whether it returns \<open>True\<close> (otherwise it
  falls through: an exception caught, or a status other than 200), and the state it
  leaves. An exception raised by the \<open>print\<close> is caught like the others, after the
  rates were replaced and written.
\<close>

definition try_source :: "env \<Rightarrow> write_outcome \<Rightarrow> response \<Rightarrow> converter \<Rightarrow> bool \<times> converter" where
  "try_source ev w r cv =
     (case r of
        Request_error \<Rightarrow> (False, cv)
      | Http status body \<Rightarrow>
          (if status = 200 then
             (case body of
                None \<Rightarrow> (False, cv)
              | Some rates_data \<Rightarrow>
                  (let cv' = install_rates ev w rates_data cv
                   in (prints_rates cv', cv')))
           else (False, cv)))"

definition fetch_live_rates :: "env \<Rightarrow> converter \<Rightarrow> bool \<times> converter" where
  "fetch_live_rates ev cv =
     (let (returned, cv1) = try_source ev (rates_write ev) (primary ev) cv
      in if returned then (True, cv1)
         else (let (returned_backup, cv2) = try_source ev (rates_write_backup ev) (backup ev) cv1
               in if returned_backup then (True, cv2) else (False, cv2)))"

definition should_update_rates :: "env \<Rightarrow> converter \<Rightarrow> bool" where
  "should_update_rates ev cv =
     (case last_updated cv of
        None \<Rightarrow> True
      | Some s \<Rightarrow>
          (if s = [] then True
           else (case fromisoformat ev s of
                   None \<Rightarrow> True
                 | Some last_update \<Rightarrow> clock ev - last_update > 4 * 3600)))"

definition update_rates :: "env \<Rightarrow> converter \<Rightarrow> bool \<times> converter" where
  "update_rates ev cv =
     (if should_update_rates ev cv then fetch_live_rates ev cv else (True, cv))"

definition get_rates :: "env \<Rightarrow> converter \<Rightarrow> rate_table \<times> converter" where
  "get_rates ev cv = (let (success, cv') = update_rates ev cv in (rates cv', cv'))"

definition convert_rmb_to_gbp :: "converter \<Rightarrow> real \<Rightarrow> py_error + real" where
  "convert_rmb_to_gbp cv amount_rmb = py_mul amount_rmb (get_or (rates cv) ''GBP'' (Num 0.11))"

definition convert_rmb_to_aed :: "converter \<Rightarrow> real \<Rightarrow> py_error + real" where
  "convert_rmb_to_aed cv amount_rmb = py_mul amount_rmb (get_or (rates cv) ''AED'' (Num 0.52))"

section \<open>The commands (\<open>bot/commands.py\<close>)\<close>

definition CITIES :: "string list" where
  "CITIES = [''Abu Dhabi'', ''Beijing'', ''Shanghai'', ''Guilin'',
             ''Chengdu'', ''Chongqing'', ''London'', ''Yangshuo'']"

definition CATEGORIES :: "string list" where
  "CATEGORIES = [''Official Stuff'', ''Transportation'', ''Accommodation'', ''Food'',
                 ''Activities'', ''Shopping'', ''Connectivity'', ''Miscellaneous'']"

definition PAYERS :: "string list" where
  "PAYERS = [''Sunil'', ''Shirin'', ''Couple'']"

definition CURRENCIES :: "string list" where
  "CURRENCIES = [''RMB'', ''GBP'', ''AED'', ''USD'', ''EUR'']"

text \<open>The command object: its database and its converter.\<close>

record cog =
  cog_db :: database
  cog_currency :: converter

text \<open>
  What a command answers: one of its rejection messages, its confirmation with the
  record, or the message of its outer \<open>except Exception\<close> handler.
\<close>

datatype reply =
    Invalid_city
  | Invalid_category
  | Invalid_payer
  | Invalid_currency
  | Invalid_date
  | Invalid_amount
  | Not_found
  | No_changes
  | Update_failed
  | Expense_added expense
  | Expense_updated expense
  | Error_reply py_error

text \<open>\<open>x or y\<close> on an optional string: \<open>None\<close> and the empty string are falsy.\<close>

fun or_else :: "string option \<Rightarrow> string \<Rightarrow> string" where
  "or_else None y = y"
| "or_else (Some x) y = (if x = [] then y else x)"

text \<open>\<open>if x and x not in CHOICES\<close>\<close>

fun invalid_choice :: "string option \<Rightarrow> string list \<Rightarrow> bool" where
  "invalid_choice None choices = False"
| "invalid_choice (Some x) choices = (x \<noteq> [] \<and> x \<notin> set choices)"

definition validate_date :: "env \<Rightarrow> string \<Rightarrow> bool" where
  "validate_date ev date_string = strptime_ok ev date_string"

text \<open>\<open>if date and not validate_date(date)\<close>\<close>

fun invalid_date :: "env \<Rightarrow> string option \<Rightarrow> bool" where
  "invalid_date ev None = False"
| "invalid_date ev (Some x) = (x \<noteq> [] \<and> \<not> validate_date ev x)"

subsection \<open>\<open>/add-expense\<close>\<close>

text \<open>\<open>1 / rate if rate != 0 else fallback\<close>\<close>

definition inverse_rate :: "rate_value \<Rightarrow> real \<Rightarrow> py_error + real" where
  "inverse_rate rate fallback = (if ne_zero rate then py_div 1 rate else Inr fallback)"

definition times :: "real \<Rightarrow> py_error + real \<Rightarrow> py_error + real" where
  "times amount r = (case r of Inl err \<Rightarrow> Inl err | Inr k \<Rightarrow> Inr (amount * k))"

definition add_amount_rmb :: "rate_table \<Rightarrow> real \<Rightarrow> string \<Rightarrow> py_error + real" where
  "add_amount_rmb rs amount cur =
     (if cur = ''RMB'' then Inr amount
      else if cur = ''GBP'' then times amount (inverse_rate (get_or rs ''GBP'' (Num 0.11)) 9.09)
      else if cur = ''AED'' then times amount (inverse_rate (get_or rs ''AED'' (Num 0.52)) 1.92)
      else if cur = ''USD'' then times amount (inverse_rate (get_or rs ''USD'' (Num 0.14)) 7.14)
      else if cur = ''EUR'' then times amount (inverse_rate (get_or rs ''EUR'' (Num 0.13)) 7.69)
      else Inr amount)"

text \<open>
  The four shares, in the order \<open>(sunil_rmb, shirin_rmb, sunil_gbp, shirin_aed)\<close>, or the
  exception of the first product that raises.
\<close>

definition add_shares ::
  "rate_table \<Rightarrow> real \<Rightarrow> string \<Rightarrow> py_error + real \<times> real \<times> real \<times> real" where
  "add_shares rs amount_rmb p =
     (if p = ''Couple'' then
        (case py_mul (amount_rmb / 2) (get_or rs ''GBP'' (Num 0.11)) of
           Inl err \<Rightarrow> Inl err
         | Inr s_gbp \<Rightarrow>
             (case py_mul (amount_rmb / 2) (get_or rs ''AED'' (Num 0.52)) of
                Inl err \<Rightarrow> Inl err
              | Inr h_aed \<Rightarrow> Inr (amount_rmb / 2, amount_rmb / 2, s_gbp, h_aed)))
      else if p = ''Sunil'' then
        (case py_mul amount_rmb (get_or rs ''GBP'' (Num 0.11)) of
           Inl err \<Rightarrow> Inl err
         | Inr s_gbp \<Rightarrow> Inr (amount_rmb, 0, s_gbp, 0))
      else
        (case py_mul amount_rmb (get_or rs ''AED'' (Num 0.52)) of
           Inl err \<Rightarrow> Inl err
         | Inr h_aed \<Rightarrow> Inr (0, amount_rmb, 0, h_aed)))"

definition add_expense ::
  "env \<Rightarrow> string \<Rightarrow> string \<Rightarrow> real \<Rightarrow> string \<Rightarrow> string \<Rightarrow> string \<Rightarrow>
   string option \<Rightarrow> string option \<Rightarrow> cog \<Rightarrow> reply \<times> cog" where
  "add_expense ev c a amount cur g p d n cg =
     (if c \<notin> set CITIES then (Invalid_city, cg)
      else if g \<notin> set CATEGORIES then (Invalid_category, cg)
      else if p \<notin> set PAYERS then (Invalid_payer, cg)
      else if cur \<notin> set CURRENCIES then (Invalid_currency, cg)
      else if invalid_date ev d then (Invalid_date, cg)
      else if amount \<le> 0 then (Invalid_amount, cg)
      else
        (let expense_date = or_else d (today ev);
             (rs, cv) = get_rates ev (cog_currency cg);
             cg1 = cg\<lparr>cog_currency := cv\<rparr>
         in case add_amount_rmb rs amount cur of
              Inl err \<Rightarrow> (Error_reply err, cg1)
            | Inr amount_rmb \<Rightarrow>
                (case add_shares rs amount_rmb p of
                   Inl err \<Rightarrow> (Error_reply err, cg1)
                 | Inr (s_rmb, h_rmb, s_gbp, h_aed) \<Rightarrow>
                     (let (i, db1) = get_next_id (cog_db cg1);
                          e = \<lparr>ident = i, city = c, activity = a, category = g,
                               date = expense_date, original_amount = amount,
                               original_currency = cur, total_rmb = amount_rmb, payer = p,
                               sunil_rmb = s_rmb, shirin_rmb = h_rmb, sunil_gbp = s_gbp,
                               shirin_aed = h_aed, notes_str = or_else n [],
                               documents = Some [], created_at = now_iso ev\<rparr>;
                          (ok, db2) = db_add_expense (now_iso ev) (db_write ev) e db1
                      in (Expense_added e, cg1\<lparr>cog_db := db2\<rparr>)))))"

subsection \<open>\<open>/edit-expense\<close>\<close>

definition edit_amount_rmb :: "rate_table \<Rightarrow> real \<Rightarrow> string \<Rightarrow> py_error + real" where
  "edit_amount_rmb rs amount update_currency =
     (if update_currency = ''RMB'' then Inr amount
      else if update_currency = ''GBP'' then py_div amount (get_or rs ''GBP'' (Num 0.11))
      else if update_currency = ''AED'' then py_div amount (get_or rs ''AED'' (Num 0.52))
      else if update_currency = ''USD'' then py_div amount (get_or rs ''USD'' (Num 0.14))
      else if update_currency = ''EUR'' then py_div amount (get_or rs ''EUR'' (Num 0.13))
      else Inr amount)"

text \<open>\<open>updates.get('payer', expense['payer'])\<close>\<close>

fun get_payer :: "upd list \<Rightarrow> string \<Rightarrow> string" where
  "get_payer [] dflt = dflt"
| "get_payer (Set_payer v # us) dflt = v"
| "get_payer (u # us) dflt = get_payer us dflt"

definition edit_shares :: "real \<Rightarrow> string \<Rightarrow> real \<times> real" where
  "edit_shares amount_rmb p =
     (if p = ''Couple'' then (amount_rmb / 2, amount_rmb / 2)
      else if p = ''Sunil'' then (amount_rmb, 0)
      else (0, amount_rmb))"

text \<open>\<open>if x is not None: updates[key] = x\<close>\<close>

fun provided :: "('a \<Rightarrow> upd) \<Rightarrow> 'a option \<Rightarrow> upd list" where
  "provided key None = []"
| "provided key (Some x) = [key x]"

text \<open>
  The end of the command, from \<open>if not updates\<close> on. After a successful update the
  record is looked up again for the confirmation; subscripting a \<open>None\<close> there would
  raise \<open>TypeError\<close> into the outer handler.
\<close>

definition finish_edit :: "env \<Rightarrow> int \<Rightarrow> upd list \<Rightarrow> cog \<Rightarrow> reply \<times> cog" where
  "finish_edit ev i updates cg =
     (if updates = [] then (No_changes, cg)
      else
        (let (success, db') = update_expense (now_iso ev) (db_write ev) i updates (cog_db cg);
             cg' = cg\<lparr>cog_db := db'\<rparr>
         in if success then
              (case get_expense_by_id i db' of
                 Some updated_expense \<Rightarrow> (Expense_updated updated_expense, cg')
               | None \<Rightarrow> (Error_reply TypeError, cg'))
            else (Update_failed, cg')))"

definition edit_expense ::
  "env \<Rightarrow> int \<Rightarrow> real option \<Rightarrow> string option \<Rightarrow> string option \<Rightarrow> string option \<Rightarrow>
   string option \<Rightarrow> string option \<Rightarrow> string option \<Rightarrow> string option \<Rightarrow> cog \<Rightarrow> reply \<times> cog" where
  "edit_expense ev i amount cur a g c p d n cg =
     (case get_expense_by_id i (cog_db cg) of
        None \<Rightarrow> (Not_found, cg)
      | Some e \<Rightarrow>
          (if invalid_choice cur CURRENCIES then (Invalid_currency, cg)
           else if invalid_choice g CATEGORIES then (Invalid_category, cg)
           else if invalid_choice c CITIES then (Invalid_city, cg)
           else if invalid_choice p PAYERS then (Invalid_payer, cg)
           else if invalid_date ev d then (Invalid_date, cg)
           else if (case amount of None \<Rightarrow> False | Some x \<Rightarrow> x \<le> 0) then (Invalid_amount, cg)
           else
             (let updates = provided Set_activity a @ provided Set_category g @
                            provided Set_city c @ provided Set_payer p @
                            provided Set_date d @ provided Set_notes n
              in case amount of
                   None \<Rightarrow> finish_edit ev i updates cg
                 | Some x \<Rightarrow>
                     (let update_currency = or_else cur (original_currency e);
                          (rs, cv) = get_rates ev (cog_currency cg);
                          cg1 = cg\<lparr>cog_currency := cv\<rparr>
                      in case edit_amount_rmb rs x update_currency of
                           Inl err \<Rightarrow> (Error_reply err, cg1)
                         | Inr amount_rmb \<Rightarrow>
                             (let (s_rmb, h_rmb) = edit_shares amount_rmb (get_payer updates (payer e))
                              in case py_mul s_rmb (get_or rs ''GBP'' (Num 0.11)) of
                                   Inl err \<Rightarrow> (Error_reply err, cg1)
                                 | Inr s_gbp \<Rightarrow>
                                     (case py_mul h_rmb (get_or rs ''AED'' (Num 0.52)) of
                                        Inl err \<Rightarrow> (Error_reply err, cg1)
                                      | Inr h_aed \<Rightarrow>
                                          finish_edit ev i
                                            (updates @
                                             [Set_original_amount x,
                                              Set_original_currency update_currency,
                                              Set_total_rmb amount_rmb, Set_sunil_rmb s_rmb,
                                              Set_sunil_gbp s_gbp, Set_shirin_rmb h_rmb,
                                              Set_shirin_aed h_aed])
                                            cg1))))))"

section \<open>Auxiliary descriptions\<close>

text \<open>
  The dictionary \<open>/add-expense\<close> builds, as a function of the id it drew, the amount
  it converted and the four shares it computed.
\<close>

definition new_expense ::
  "env \<Rightarrow> int \<Rightarrow> string \<Rightarrow> string \<Rightarrow> real \<Rightarrow> string \<Rightarrow> string \<Rightarrow> string \<Rightarrow>
   string option \<Rightarrow> string option \<Rightarrow> real \<Rightarrow> real \<times> real \<times> real \<times> real \<Rightarrow> expense" where
  "new_expense ev i c a amount cur g p d n x sh =
     \<lparr>ident = i, city = c, activity = a, category = g,
      date = or_else d (today ev), original_amount = amount,
      original_currency = cur, total_rmb = x, payer = p,
      sunil_rmb = fst sh, shirin_rmb = fst (snd sh),
      sunil_gbp = fst (snd (snd sh)),
      shirin_aed = snd (snd (snd sh)), notes_str = or_else n [],
      documents = Some [], created_at = now_iso ev\<rparr>"

text \<open>A rate table none of whose four entries is \<open>null\<close>.\<close>

definition numeric_rates :: "rate_table \<Rightarrow> bool" where
  "numeric_rates rs =
     (rs ''GBP'' \<noteq> Some Null \<and> rs ''AED'' \<noteq> Some Null \<and>
      rs ''USD'' \<noteq> Some Null \<and> rs ''EUR'' \<noteq> Some Null)"

text \<open>
  A rate service gives no answer to install: the request raises, the status is not 200,
  or the body cannot be read.
\<close>

definition no_answer :: "response \<Rightarrow> bool" where
  "no_answer r =
     (case r of Request_error \<Rightarrow> True | Http status body \<Rightarrow> status \<noteq> 200 \<or> body = None)"

section \<open>Concrete states used in the examples\<close>

definition couple_expense :: "int \<Rightarrow> string \<Rightarrow> expense" where
  "couple_expense i d =
     \<lparr>ident = i, city = ''Beijing'', activity = ''Dinner'', category = ''Food'',
      date = d, original_amount = 100, original_currency = ''RMB'', total_rmb = 100,
      payer = ''Couple'', sunil_rmb = 50, shirin_rmb = 50, sunil_gbp = 11 / 2,
      shirin_aed = 26, notes_str = [], documents = Some [],
      created_at = ''2025-01-01T10:00:00''\<rparr>"

definition sample_data :: store_data where
  "sample_data =
     \<lparr>expenses = [couple_expense 1 ''2025-01-02'', couple_expense 2 ''2025-01-01'',
                  couple_expense 3 ''2025-01-02''],
      next_id = 4, data_created_at = ''2025-01-01T09:00:00'',
      data_last_updated = ''2025-01-02T18:00:00''\<rparr>"

definition sample_db :: database where
  "sample_db = \<lparr>data = sample_data, db_file = Some sample_data\<rparr>"

text \<open>A converter that has never been refreshed, holding the given rate for the pound.\<close>

definition sample_converter :: "real \<Rightarrow> converter" where
  "sample_converter gbp =
     \<lparr>rates = [''GBP'' \<mapsto> Num gbp, ''AED'' \<mapsto> Num (1 / 2), ''USD'' \<mapsto> Num (7 / 50),
               ''EUR'' \<mapsto> Num (13 / 100)],
      last_updated = None, rates_file = None\<rparr>"

text \<open>Surroundings in which both rate services are out of reach.\<close>

definition offline_env :: "write_outcome \<Rightarrow> env" where
  "offline_env w =
     \<lparr>clock = 100000, now_iso = ''2025-01-03T12:00:00'', today = ''2025-01-03'',
      fromisoformat = (\<lambda>s. None), strptime_ok = (\<lambda>s. length s = 10),
      primary = Request_error, backup = Http 503 None,
      rates_write = w, rates_write_backup = w, db_write = w\<rparr>"

text \<open>
  Surroundings in which the primary service answers 200 with the document
  \<open>{"rates": {"GBP": null}}\<close> and the request to the backup service raises.
\<close>

definition null_answer_env :: env where
  "null_answer_env =
     \<lparr>clock = 100000, now_iso = ''2025-01-03T12:00:00'', today = ''2025-01-03'',
      fromisoformat = (\<lambda>s. None), strptime_ok = (\<lambda>s. length s = 10),
      primary = Http 200 (Some [''GBP'' \<mapsto> Null]), backup = Request_error,
      rates_write = Write_ok, rates_write_backup = Write_ok, db_write = Write_ok\<rparr>"

definition sample_cog :: "real \<Rightarrow> cog" where
  "sample_cog gbp = \<lparr>cog_db = sample_db, cog_currency = sample_converter gbp\<rparr>"

section \<open>Facts about the database operations\<close>

lemma data_save_data: "data (save_data now w db) = (data db)\<lparr>data_last_updated := now\<rparr>"
  by (simp add: save_data_def Let_def)

lemma db_file_save_data:
  "db_file (save_data now w db) = written w ((data db)\<lparr>data_last_updated := now\<rparr>) (db_file db)"
  by (simp add: save_data_def Let_def)

lemma filter_loop_filter:
  "filter_loop c g s t es =
     filter (\<lambda>e. \<not> differs_from c (city e) \<and> \<not> differs_from g (category e) \<and>
                 \<not> before_start s (date e) \<and> \<not> after_end t (date e)) es"
  by (induction es) simp_all

lemma single_day_keep:
  "D \<noteq> [] \<Longrightarrow> filter_loop None None (Some D) (Some D) es = filter (\<lambda>e. date e = D) es"
  by (induction es) auto

lemma sort_reverse_descending: "sorted (rev (map f (sort_reverse f xs)))"
  by (simp add: sort_reverse_def rev_map [symmetric])

lemma sort_reverse_stable:
  "filter (\<lambda>y. f y = k) (sort_reverse f xs) = filter (\<lambda>y. f y = k) xs"
proof -
  have "filter (\<lambda>y. f y = k) (sort_reverse f xs) = rev (filter (\<lambda>y. f y = k) (sort_key f (rev xs)))"
    by (simp add: sort_reverse_def rev_filter)
  also have "\<dots> = rev (filter (\<lambda>y. f y = k) (rev xs))"
    by (simp only: sort_key_stable)
  also have "\<dots> = filter (\<lambda>y. f y = k) xs"
    by (simp add: rev_filter)
  finally show ?thesis .
qed

lemma sort_reverse_constant_key:
  assumes "\<And>x. x \<in> set xs \<Longrightarrow> f x = k"
  shows "sort_reverse f xs = xs"
proof -
  have "set (sort_reverse f xs) = set xs"
    by (simp add: sort_reverse_def)
  with assms have all: "\<And>x. x \<in> set (sort_reverse f xs) \<Longrightarrow> f x = k"
    by simp
  have "sort_reverse f xs = filter (\<lambda>y. f y = k) (sort_reverse f xs)"
    using all by (simp add: filter_id_conv)
  also have "\<dots> = filter (\<lambda>y. f y = k) xs"
    by (rule sort_reverse_stable)
  also have "\<dots> = xs"
    using assms by (simp add: filter_id_conv)
  finally show ?thesis .
qed

text \<open>When \<open>delete_document\<close> answers \<open>True\<close>, and what it leaves of the list it rebuilds.\<close>

lemma delete_document_loop_succeeds:
  "delete_document_loop i name es \<noteq> None \<longleftrightarrow>
     (\<exists>e \<in> set es. ident e = i \<and> documents e \<noteq> None)"
  by (induction es) (auto split: option.splits)

lemma delete_document_returns:
  "fst (delete_document now w i name db) \<longleftrightarrow>
     (\<exists>e \<in> set (expenses (data db)). ident e = i \<and> documents e \<noteq> None)"
  using delete_document_loop_succeeds [of i name "expenses (data db)"]
  by (auto simp: delete_document_def split: option.splits)

section \<open>Facts about the rate cache\<close>

lemma try_source_no_answer: "no_answer r \<Longrightarrow> try_source ev w r cv = (False, cv)"
  by (auto simp: no_answer_def try_source_def split: response.splits)

text \<open>
  While neither service gives an answer to install, \<open>get_rates\<close> returns the table it
  held and changes nothing.
\<close>

lemma get_rates_unchanged_without_answer:
  assumes "no_answer (primary ev)" "no_answer (backup ev)"
  shows "get_rates ev cv = (rates cv, cv)"
proof -
  have "fetch_live_rates ev cv = (False, cv)"
    using assms by (simp add: fetch_live_rates_def try_source_no_answer)
  then show ?thesis
    by (simp add: get_rates_def update_rates_def)
qed

lemma get_rates_offline:
  "get_rates (offline_env w) (sample_converter k) = (rates (sample_converter k), sample_converter k)"
  by (rule get_rates_unchanged_without_answer) (simp_all add: no_answer_def offline_env_def)

section \<open>Facts about the commands\<close>

lemma get_or_numeric: "rs k \<noteq> Some Null \<Longrightarrow> \<exists>r. get_or rs k (Num dflt) = Num r"
  by (cases "rs k") (auto simp: get_or_def intro: rate_value.exhaust)

lemma inverse_rate_returns: "\<exists>k. inverse_rate (Num r) f = Inr k"
  by (simp add: inverse_rate_def)

lemma add_amount_rmb_returns:
  assumes "numeric_rates rs"
  shows "\<exists>x. add_amount_rmb rs amount cur = Inr x"
proof -
  have "\<exists>x. times amount (inverse_rate (get_or rs k (Num dflt)) f) = Inr x"
    if "rs k \<noteq> Some Null" for k dflt f
  proof -
    from that obtain r where "get_or rs k (Num dflt) = Num r"
      using get_or_numeric by blast
    then show ?thesis
      using inverse_rate_returns [of r f] by (auto simp: times_def)
  qed
  with assms show ?thesis
    by (simp add: add_amount_rmb_def numeric_rates_def)
qed

lemma add_amount_rmb_divides:
  assumes "cur \<in> {''GBP'', ''AED'', ''USD'', ''EUR''}" "rs cur = Some (Num r)" "r \<noteq> 0"
  shows "add_amount_rmb rs amount cur = Inr (amount / r)"
proof -
  have k: "times amount (inverse_rate (Num r) f) = Inr (amount / r)" for f
    using assms(3) by (simp add: inverse_rate_def times_def)
  from assms(1) consider "cur = ''GBP''" | "cur = ''AED''" | "cur = ''USD''" | "cur = ''EUR''"
    by blast
  then show ?thesis
  proof cases
    case 1
    with assms(2) show ?thesis by (simp add: add_amount_rmb_def get_or_def k)
  next
    case 2
    with assms(2) show ?thesis by (simp add: add_amount_rmb_def get_or_def k)
  next
    case 3
    with assms(2) show ?thesis by (simp add: add_amount_rmb_def get_or_def k)
  next
    case 4
    with assms(2) show ?thesis by (simp add: add_amount_rmb_def get_or_def k)
  qed
qed

lemma add_shares_returns:
  assumes "rs ''GBP'' \<noteq> Some Null" "rs ''AED'' \<noteq> Some Null"
  shows "\<exists>sh. add_shares rs x p = Inr sh"
proof -
  obtain gbp aed where "get_or rs ''GBP'' (Num 0.11) = Num gbp" "get_or rs ''AED'' (Num 0.52) = Num aed"
    using assms get_or_numeric by blast
  then have "add_shares rs x p =
      Inr (if p = ''Couple'' then (x / 2, x / 2, x / 2 * gbp, x / 2 * aed)
           else if p = ''Sunil'' then (x, 0, x * gbp, 0) else (0, x, 0, x * aed))"
    by (simp add: add_shares_def)
  then show ?thesis
    by blast
qed

lemma add_shares_sum: "add_shares rs x p = Inr sh \<Longrightarrow> fst sh + fst (snd sh) = x"
  by (auto simp: add_shares_def split: if_splits sum.splits)

lemma add_shares_couple:
  "add_shares rs x ''Couple'' = Inr sh \<Longrightarrow> fst sh = x / 2 \<and> fst (snd sh) = x / 2"
  by (auto simp: add_shares_def split: sum.splits)

lemma edit_shares_sum: "fst (edit_shares x p) + snd (edit_shares x p) = x"
  by (simp add: edit_shares_def)

text \<open>What \<open>/add-expense\<close> does with input that passes its six checks.\<close>

lemma add_expense_accepted:
  assumes "c \<in> set CITIES" "g \<in> set CATEGORIES" "p \<in> set PAYERS" "cur \<in> set CURRENCIES"
    and "\<not> invalid_date ev d" "0 < amount"
    and "add_amount_rmb (fst (get_rates ev (cog_currency cg))) amount cur = Inr x"
    and "add_shares (fst (get_rates ev (cog_currency cg))) x p = Inr sh"
  shows "fst (add_expense ev c a amount cur g p d n cg) =
           Expense_added (new_expense ev (next_id (data (cog_db cg))) c a amount cur g p d n x sh)"
    and "expenses (data (cog_db (snd (add_expense ev c a amount cur g p d n cg)))) =
           expenses (data (cog_db cg)) @
             [new_expense ev (next_id (data (cog_db cg))) c a amount cur g p d n x sh]"
  using assms
  by (simp_all add: add_expense_def Let_def split_beta get_next_id_def db_add_expense_def
        data_save_data new_expense_def)

text \<open>Every answer \<open>Expense_added\<close> comes from the last branch of \<open>/add-expense\<close>.\<close>

lemma add_expense_created:
  assumes "fst (add_expense ev c a amount cur g p d n cg) = Expense_added e"
  shows "\<exists>x sh. add_shares (fst (get_rates ev (cog_currency cg))) x p = Inr sh \<and>
           e = new_expense ev (next_id (data (cog_db cg))) c a amount cur g p d n x sh \<and>
           expenses (data (cog_db (snd (add_expense ev c a amount cur g p d n cg)))) =
             expenses (data (cog_db cg)) @ [e]"
  using assms
  by (auto simp: add_expense_def Let_def split_beta get_next_id_def db_add_expense_def
        data_save_data new_expense_def split: if_splits sum.splits)

lemma accepted_examples:
  "''Beijing'' \<in> set CITIES" "''Food'' \<in> set CATEGORIES" "''GBP'' \<in> set CURRENCIES"
  "''Couple'' \<in> set PAYERS" "''Sunil'' \<in> set PAYERS" "''Shirin'' \<in> set PAYERS"
  by (simp_all add: CITIES_def CATEGORIES_def CURRENCIES_def PAYERS_def)

lemma find_first_sample:
  "get_expense_by_id 1 (cog_db (sample_cog k)) = Some (couple_expense 1 ''2025-01-02'')"
  by (simp add: get_expense_by_id_def sample_cog_def sample_db_def sample_data_def couple_expense_def)

lemma sample_cog_currency: "cog_currency (sample_cog k) = sample_converter k"
  by (simp add: sample_cog_def)

lemma sample_cog_same: "(sample_cog k)\<lparr>cog_currency := sample_converter k\<rparr> = sample_cog k"
  by (simp add: sample_cog_def)

lemma sample_rates_numeric: "numeric_rates (fst (get_rates (offline_env w) (sample_converter k)))"
  by (simp add: get_rates_offline) (simp add: numeric_rates_def sample_converter_def)

section \<open>The claims\<close>

text \<open>
  Claim C1. Every record that \<open>/add-expense\<close> creates is the record it appends to the
  store, carries the payer and the amount that were entered, and its two yuan shares add
  up to its yuan total: \<open>sunil_rmb + shirin_rmb = total_rmb\<close>. (Amounts are real
  numbers here, so the sum is exact.) It creates one whenever it is given a listed city,
  category and currency, a date it accepts, a positive amount and one of the three
  payers, and the rate entries it holds are numbers. The shares computed by
  \<open>/edit-expense\<close> add up to the converted amount in the same way.
\<close>

theorem add_expense_shares_sum_to_total:
  assumes "c \<in> set CITIES" "g \<in> set CATEGORIES" "cur \<in> set CURRENCIES"
    and "\<not> invalid_date ev d" "0 < amount" "p \<in> set PAYERS"
  shows "(numeric_rates (fst (get_rates ev (cog_currency cg))) \<longrightarrow>
          (\<exists>e. fst (add_expense ev c a amount cur g p d n cg) = Expense_added e \<and>
             expenses (data (cog_db (snd (add_expense ev c a amount cur g p d n cg)))) =
               expenses (data (cog_db cg)) @ [e] \<and>
             payer e = p \<and> original_amount e = amount \<and>
             sunil_rmb e + shirin_rmb e = total_rmb e)) \<and>
         (\<forall>e. fst (add_expense ev c a amount cur g p d n cg) = Expense_added e \<longrightarrow>
             expenses (data (cog_db (snd (add_expense ev c a amount cur g p d n cg)))) =
               expenses (data (cog_db cg)) @ [e] \<and>
             payer e = p \<and> original_amount e = amount \<and>
             sunil_rmb e + shirin_rmb e = total_rmb e) \<and>
         fst (edit_shares x p) + snd (edit_shares x p) = x"
proof -
  let ?rs = "fst (get_rates ev (cog_currency cg))"
  let ?reply = "fst (add_expense ev c a amount cur g p d n cg)"
  let ?stored = "expenses (data (cog_db (snd (add_expense ev c a amount cur g p d n cg))))"
  have created: "?stored = expenses (data (cog_db cg)) @ [e] \<and> payer e = p \<and>
      original_amount e = amount \<and> sunil_rmb e + shirin_rmb e = total_rmb e"
    if "?reply = Expense_added e" for e
  proof -
    from that obtain y sh where sh: "add_shares ?rs y p = Inr sh"
      and e: "e = new_expense ev (next_id (data (cog_db cg))) c a amount cur g p d n y sh"
      and stored: "?stored = expenses (data (cog_db cg)) @ [e]"
      using add_expense_created by blast
    have "sunil_rmb e + shirin_rmb e = total_rmb e"
      using add_shares_sum [OF sh] by (simp add: e new_expense_def)
    moreover have "payer e = p" "original_amount e = amount"
      by (simp_all add: e new_expense_def)
    ultimately show ?thesis
      using stored by simp
  qed
  have "\<exists>e. ?reply = Expense_added e" if num: "numeric_rates ?rs"
  proof -
    obtain y where y: "add_amount_rmb ?rs amount cur = Inr y"
      using add_amount_rmb_returns [OF num] by blast
    obtain sh where sh: "add_shares ?rs y p = Inr sh"
      using num add_shares_returns [of ?rs y p] by (auto simp: numeric_rates_def)
    show ?thesis
      using assms y sh by (simp add: add_expense_accepted(1))
  qed
  with created show ?thesis
    using edit_shares_sum by blast
qed

theorem add_expense_shares_sum_to_total_witness:
  "(''Beijing'' \<in> set CITIES \<and> ''Food'' \<in> set CATEGORIES \<and> ''GBP'' \<in> set CURRENCIES \<and>
    \<not> invalid_date (offline_env Write_ok) None \<and> (0::real) < 100 \<and>
    ''Sunil'' \<in> set PAYERS \<and> ''Shirin'' \<in> set PAYERS \<and> ''Couple'' \<in> set PAYERS \<and>
    numeric_rates (fst (get_rates (offline_env Write_ok) (cog_currency (sample_cog (1 / 2)))))) \<and>
   (\<exists>e. fst (add_expense (offline_env Write_ok) ''Beijing'' ''Tea'' 100 ''GBP'' ''Food'' ''Sunil''
             None None (sample_cog (1 / 2))) = Expense_added e \<and>
        expenses (data (cog_db (snd (add_expense (offline_env Write_ok) ''Beijing'' ''Tea'' 100
             ''GBP'' ''Food'' ''Sunil'' None None (sample_cog (1 / 2)))))) =
          expenses (data (cog_db (sample_cog (1 / 2)))) @ [e] \<and>
        payer e = ''Sunil'' \<and> original_amount e = 100 \<and>
        sunil_rmb e + shirin_rmb e = total_rmb e) \<and>
   (\<exists>e. fst (add_expense (offline_env Write_ok) ''Beijing'' ''Tea'' 100 ''GBP'' ''Food'' ''Shirin''
             None None (sample_cog (1 / 2))) = Expense_added e \<and>
        payer e = ''Shirin'' \<and> sunil_rmb e + shirin_rmb e = total_rmb e) \<and>
   (\<exists>e. fst (add_expense (offline_env Write_ok) ''Beijing'' ''Tea'' 100 ''GBP'' ''Food'' ''Couple''
             None None (sample_cog (1 / 2))) = Expense_added e \<and>
        payer e = ''Couple'' \<and> sunil_rmb e + shirin_rmb e = total_rmb e)"
proof -
  have h: "\<not> invalid_date (offline_env Write_ok) None" "(0::real) < 100"
    by simp_all
  have num: "numeric_rates (fst (get_rates (offline_env Write_ok) (cog_currency (sample_cog (1 / 2)))))"
    by (simp add: sample_cog_currency sample_rates_numeric)
  note sum = add_expense_shares_sum_to_total [OF accepted_examples(1-3) h,
      where a = "''Tea''" and n = None and cg = "sample_cog (1 / 2)"]
  have "\<exists>e. fst (add_expense (offline_env Write_ok) ''Beijing'' ''Tea'' 100 ''GBP'' ''Food'' ''Sunil''
             None None (sample_cog (1 / 2))) = Expense_added e \<and>
        expenses (data (cog_db (snd (add_expense (offline_env Write_ok) ''Beijing'' ''Tea'' 100
             ''GBP'' ''Food'' ''Sunil'' None None (sample_cog (1 / 2)))))) =
          expenses (data (cog_db (sample_cog (1 / 2)))) @ [e] \<and>
        payer e = ''Sunil'' \<and> original_amount e = 100 \<and>
        sunil_rmb e + shirin_rmb e = total_rmb e"
    using sum [OF accepted_examples(5)] num by blast
  moreover have "\<exists>e. fst (add_expense (offline_env Write_ok) ''Beijing'' ''Tea'' 100 ''GBP'' ''Food''
             ''Shirin'' None None (sample_cog (1 / 2))) = Expense_added e \<and>
        payer e = ''Shirin'' \<and> sunil_rmb e + shirin_rmb e = total_rmb e"
    using sum [OF accepted_examples(6)] num by blast
  moreover have "\<exists>e. fst (add_expense (offline_env Write_ok) ''Beijing'' ''Tea'' 100 ''GBP'' ''Food''
             ''Couple'' None None (sample_cog (1 / 2))) = Expense_added e \<and>
        payer e = ''Couple'' \<and> sunil_rmb e + shirin_rmb e = total_rmb e"
    using sum [OF accepted_examples(4)] num by blast
  ultimately show ?thesis
    using accepted_examples h num by blast
qed

text \<open>
  Claim C2, as the code has it. \<open>add_expense\<close> of the database never raises and never
  takes the record back: whatever happens to the write, it returns \<open>True\<close>, the record
  stays appended in memory and the counter is untouched. \<open>save_data\<close> catches the
  failure of the write, so after a failed open the file still holds its previous content
  and after a failed dump it holds no complete document, while memory is one record
  ahead.
\<close>

theorem db_add_expense_keeps_insert:
  "db_add_expense now w e db =
     (True,
      \<lparr>data = (data db)\<lparr>expenses := expenses (data db) @ [e], data_last_updated := now\<rparr>,
       db_file = written w ((data db)\<lparr>expenses := expenses (data db) @ [e],
                                        data_last_updated := now\<rparr>) (db_file db)\<rparr>) \<and>
   written Open_fails d (db_file db) = db_file db \<and>
   written Dump_fails d (db_file db) = None \<and>
   written Write_ok d (db_file db) = Some d"
  by (simp add: db_add_expense_def save_data_def Let_def written_def)

text \<open>
  The claim as stated fails: with the sample store, whose file holds the three records
  in memory, and a write whose open fails, \<open>add_expense\<close> answers \<open>True\<close>, memory
  holds four records and the file still holds three.
\<close>

theorem db_add_expense_failed_write_counterexample:
  "db_add_expense ''2025-01-03T12:00:00'' Open_fails (couple_expense 4 ''2025-01-03'') sample_db =
     (True,
      \<lparr>data = sample_data\<lparr>expenses := expenses sample_data @ [couple_expense 4 ''2025-01-03''],
                           data_last_updated := ''2025-01-03T12:00:00''\<rparr>,
       db_file = Some sample_data\<rparr>)"
  by (simp add: db_add_expense_def save_data_def Let_def written_def sample_db_def)

text \<open>
  Claim C3, at the input where the code departs from it. Record 1 of the sample store
  was paid jointly: total 100, shares 50 and 50. \<open>/edit-expense\<close> with only a new payer
  \<open>Sunil\<close> stores the new payer and leaves the shares at 50 and 50, because the shares
  are recomputed only inside \<open>if amount is not None\<close>. The same edit with the amount 100
  given as well takes that branch and stores the shares 100 and 0.
\<close>

theorem edit_expense_payer_only_keeps_old_shares:
  "fst (edit_expense (offline_env Write_ok) 1 None None None None None (Some ''Sunil'') None None
          (sample_cog (1 / 2))) =
     Expense_updated ((couple_expense 1 ''2025-01-02'')\<lparr>payer := ''Sunil''\<rparr>) \<and>
   total_rmb ((couple_expense 1 ''2025-01-02'')\<lparr>payer := ''Sunil''\<rparr>) = 100 \<and>
   sunil_rmb ((couple_expense 1 ''2025-01-02'')\<lparr>payer := ''Sunil''\<rparr>) = 50 \<and>
   shirin_rmb ((couple_expense 1 ''2025-01-02'')\<lparr>payer := ''Sunil''\<rparr>) = 50 \<and>
   fst (edit_expense (offline_env Write_ok) 1 (Some 100) None None None None (Some ''Sunil'') None None
          (sample_cog (1 / 2))) =
     Expense_updated ((couple_expense 1 ''2025-01-02'')
        \<lparr>payer := ''Sunil'', sunil_rmb := 100, shirin_rmb := 0, sunil_gbp := 50, shirin_aed := 0\<rparr>)"
proof -
  have "fst (finish_edit (offline_env Write_ok) 1 [Set_payer ''Sunil''] (sample_cog (1 / 2))) =
          Expense_updated ((couple_expense 1 ''2025-01-02'')\<lparr>payer := ''Sunil''\<rparr>)"
    by (simp add: finish_edit_def update_expense_def get_expense_by_id_def data_save_data
          sample_cog_def sample_db_def sample_data_def couple_expense_def offline_env_def)
  then have payer_only:
    "fst (edit_expense (offline_env Write_ok) 1 None None None None None (Some ''Sunil'') None None
          (sample_cog (1 / 2))) = Expense_updated ((couple_expense 1 ''2025-01-02'')\<lparr>payer := ''Sunil''\<rparr>)"
    by (simp add: edit_expense_def find_first_sample PAYERS_def)
  have g: "get_or (rates (sample_converter (1 / 2))) ''GBP'' (Num (11 / 100)) = Num (1 / 2)"
    "get_or (rates (sample_converter (1 / 2))) ''AED'' (Num (13 / 25)) = Num (1 / 2)"
    by (simp_all add: get_or_def sample_converter_def)
  have f: "fst (finish_edit (offline_env Write_ok) 1
          [Set_payer ''Sunil'', Set_original_amount 100, Set_original_currency ''RMB'',
           Set_total_rmb 100, Set_sunil_rmb 100, Set_sunil_gbp 50, Set_shirin_rmb 0,
           Set_shirin_aed 0]
          (sample_cog (1 / 2))) =
        Expense_updated ((couple_expense 1 ''2025-01-02'')
          \<lparr>payer := ''Sunil'', sunil_rmb := 100, shirin_rmb := 0, sunil_gbp := 50, shirin_aed := 0\<rparr>)"
    by (simp add: finish_edit_def update_expense_def get_expense_by_id_def data_save_data
          sample_cog_def sample_db_def sample_data_def couple_expense_def offline_env_def)
  have e: "original_currency (couple_expense 1 ''2025-01-02'') = ''RMB''"
    "payer (couple_expense 1 ''2025-01-02'') = ''Couple''"
    by (simp_all add: couple_expense_def)
  have with_amount:
    "fst (edit_expense (offline_env Write_ok) 1 (Some 100) None None None None (Some ''Sunil'') None None
          (sample_cog (1 / 2))) =
     Expense_updated ((couple_expense 1 ''2025-01-02'')
        \<lparr>payer := ''Sunil'', sunil_rmb := 100, shirin_rmb := 0, sunil_gbp := 50, shirin_aed := 0\<rparr>)"
    by (simp add: edit_expense_def find_first_sample PAYERS_def edit_amount_rmb_def
          edit_shares_def e sample_cog_currency get_rates_offline sample_cog_same g f)
  show ?thesis
    using payer_only with_amount by (simp add: couple_expense_def)
qed

text \<open>
  Claim C4, at the input where the code departs from it. With a held pound rate of
  zero, \<open>/add-expense\<close> of 10 pounds takes the fallback factor 9.09 and records 90.9
  yuan, while \<open>/edit-expense\<close> of record 1 to 10 pounds divides by the zero rate: the
  \<open>ZeroDivisionError\<close> reaches the command's outer handler and the record is not
  changed.
\<close>

theorem edit_expense_zero_rate_raises:
  "fst (edit_expense (offline_env Write_ok) 1 (Some 10) (Some ''GBP'') None None None None None None
          (sample_cog 0)) = Error_reply ZeroDivisionError \<and>
   cog_db (snd (edit_expense (offline_env Write_ok) 1 (Some 10) (Some ''GBP'') None None None None
          None None (sample_cog 0))) = sample_db \<and>
   (\<exists>e. fst (add_expense (offline_env Write_ok) ''Beijing'' ''Tea'' 10 ''GBP'' ''Food'' ''Sunil''
             None None (sample_cog 0)) = Expense_added e \<and> total_rmb e = 10 * 9.09)"
proof -
  have "edit_amount_rmb (rates (sample_converter 0)) 10 ''GBP'' = Inl ZeroDivisionError"
    by (simp add: edit_amount_rmb_def get_or_def sample_converter_def)
  then have "edit_expense (offline_env Write_ok) 1 (Some 10) (Some ''GBP'') None None None None None None
          (sample_cog 0) = (Error_reply ZeroDivisionError, sample_cog 0)"
    by (simp add: edit_expense_def find_first_sample CURRENCIES_def)
       (simp add: sample_cog_def get_rates_offline)
  then have edit: "fst (edit_expense (offline_env Write_ok) 1 (Some 10) (Some ''GBP'') None None None None
          None None (sample_cog 0)) = Error_reply ZeroDivisionError"
    "cog_db (snd (edit_expense (offline_env Write_ok) 1 (Some 10) (Some ''GBP'') None None None None
          None None (sample_cog 0))) = sample_db"
    by (simp_all add: sample_cog_def)
  have amount: "add_amount_rmb (rates (sample_converter 0)) 10 ''GBP'' = Inr (909 / 10)"
    by (simp add: add_amount_rmb_def get_or_def sample_converter_def inverse_rate_def times_def)
  have shares: "add_shares (rates (sample_converter 0)) (909 / 10) ''Sunil'' = Inr (909 / 10, 0, 0, 0)"
    by (simp add: add_shares_def get_or_def sample_converter_def)
  have "\<exists>e. fst (add_expense (offline_env Write_ok) ''Beijing'' ''Tea'' 10 ''GBP'' ''Food'' ''Sunil''
             None None (sample_cog 0)) = Expense_added e \<and> total_rmb e = 10 * 9.09"
    by (simp add: add_expense_def CITIES_def CATEGORIES_def PAYERS_def CURRENCIES_def
          sample_cog_currency get_rates_offline amount shares split_beta Let_def)
  with edit show ?thesis by blast
qed

text \<open>
  Claim C5, at the input where the code departs from it. The converter holds a pound
  rate of one half and has never been refreshed. The primary service answers 200 with
  the document \<open>{"rates": {"GBP": null}}\<close>; the request to the backup service raises.
  The first attempt replaces \<open>self.rates\<close>, sets \<open>last_updated\<close> and writes the rate
  file before its \<open>print\<close> raises on the \<open>null\<close>; the handler catches that, the second
  attempt fails, and \<open>fetch_live_rates\<close> returns \<open>False\<close>. \<open>get_rates\<close> then
  returns, without raising, a table whose pound rate is \<open>null\<close>, and the rate file
  holds the same. (While neither service gives an answer to install, the snapshot is
  kept: lemma \<open>get_rates_unchanged_without_answer\<close>.)
\<close>

theorem get_rates_null_rate_replaces_snapshot:
  "\<not> fst (fetch_live_rates null_answer_env (sample_converter (1 / 2))) \<and>
   rates (sample_converter (1 / 2)) ''GBP'' = Some (Num (1 / 2)) \<and>
   fst (get_rates null_answer_env (sample_converter (1 / 2))) ''GBP'' = Some Null \<and>
   fst (get_rates null_answer_env (sample_converter (1 / 2))) ''AED'' = Some (Num (1 / 2)) \<and>
   last_updated (snd (get_rates null_answer_env (sample_converter (1 / 2)))) =
     Some ''2025-01-03T12:00:00'' \<and>
   (case rates_file (snd (get_rates null_answer_env (sample_converter (1 / 2)))) of
      None \<Rightarrow> None
    | Some (table, stamp) \<Rightarrow> table ''GBP'') = Some Null"
proof -
  let ?cv = "install_rates null_answer_env Write_ok [''GBP'' \<mapsto> Null] (sample_converter (1 / 2))"
  have gbp: "rates ?cv ''GBP'' = Some Null"
    and aed: "rates ?cv ''AED'' = Some (Num (1 / 2))"
    and stamp: "last_updated ?cv = Some ''2025-01-03T12:00:00''"
    and saved: "rates_file ?cv = Some (rates ?cv, last_updated ?cv)"
    by (simp_all add: install_rates_def save_rates_def written_def get_or_def
          sample_converter_def null_answer_env_def)
  have "\<not> prints_rates ?cv"
    by (simp add: prints_rates_def gbp aed)
  then have first: "try_source null_answer_env Write_ok (primary null_answer_env)
      (sample_converter (1 / 2)) = (False, ?cv)"
    by (simp add: try_source_def null_answer_env_def Let_def)
  have "try_source null_answer_env Write_ok (backup null_answer_env) ?cv = (False, ?cv)"
    by (simp add: try_source_def null_answer_env_def)
  with first have fetch: "fetch_live_rates null_answer_env (sample_converter (1 / 2)) = (False, ?cv)"
    by (simp add: fetch_live_rates_def) (simp add: null_answer_env_def)
  have "should_update_rates null_answer_env (sample_converter (1 / 2))"
    by (simp add: should_update_rates_def sample_converter_def)
  with fetch have "get_rates null_answer_env (sample_converter (1 / 2)) = (rates ?cv, ?cv)"
    by (simp add: get_rates_def update_rates_def)
  moreover have "rates (sample_converter (1 / 2)) ''GBP'' = Some (Num (1 / 2))"
    by (simp add: sample_converter_def)
  ultimately show ?thesis
    using fetch gbp aed stamp saved by simp
qed

text \<open>
  Claim C6. For a date \<open>D\<close> (a non-empty string), the listing with start and end date
  both \<open>D\<close> and no other filter returns exactly the records whose date is \<open>D\<close>, in the
  order of the store. Every listing is in descending order of date, and among records of
  one date it keeps the order the filtered records had in the store.
\<close>

theorem get_expenses_single_day_sorted:
  assumes "D \<noteq> []"
  shows "get_expenses None None (Some D) (Some D) db =
           filter (\<lambda>e. date e = D) (expenses (data db)) \<and>
         sorted (rev (map date (get_expenses c g s t db))) \<and>
         filter (\<lambda>e. date e = k) (get_expenses c g s t db) =
           filter (\<lambda>e. date e = k) (filter_loop c g s t (expenses (data db)))"
proof (intro conjI)
  show "get_expenses None None (Some D) (Some D) db = filter (\<lambda>e. date e = D) (expenses (data db))"
    unfolding get_expenses_def single_day_keep [OF assms]
    by (rule sort_reverse_constant_key [where k = D]) simp
  show "sorted (rev (map date (get_expenses c g s t db)))"
    unfolding get_expenses_def by (rule sort_reverse_descending)
  show "filter (\<lambda>e. date e = k) (get_expenses c g s t db) =
          filter (\<lambda>e. date e = k) (filter_loop c g s t (expenses (data db)))"
    unfolding get_expenses_def by (rule sort_reverse_stable)
qed

theorem get_expenses_single_day_sorted_witness:
  "''2025-01-02'' \<noteq> [] \<and>
   map ident (get_expenses None None (Some ''2025-01-02'') (Some ''2025-01-02'') sample_db) = [1, 3] \<and>
   map ident (get_expenses None None None None sample_db) = [1, 3, 2] \<and>
   map date (get_expenses None None None None sample_db) =
     [''2025-01-02'', ''2025-01-02'', ''2025-01-01'']"
proof -
  have "map ident (get_expenses None None None None sample_db) = [1, 3, 2]"
    "map date (get_expenses None None None None sample_db) =
       [''2025-01-02'', ''2025-01-02'', ''2025-01-01'']"
    by code_simp+
  then show ?thesis
    using get_expenses_single_day_sorted [of "''2025-01-02''" sample_db]
    by (simp add: sample_db_def sample_data_def couple_expense_def)
qed

text \<open>
  Claim C7. \<open>/add-expense\<close> converts an amount entered in pounds, dirhams, dollars or
  euros by dividing it by the held rate of that currency (when the rate is not zero), and
  a joint payment gives each party half of the result; the pound and dirham entries,
  which the two home-currency shares are computed from, are numbers. With the amount 100
  and the rate one half this is a total of 200 and shares of 100 each, as the example
  after the theorem shows.
\<close>

theorem add_expense_divides_by_rate:
  assumes "c \<in> set CITIES" "g \<in> set CATEGORIES" "\<not> invalid_date ev d" "0 < amount"
    and "cur \<in> {''GBP'', ''AED'', ''USD'', ''EUR''}"
    and "fst (get_rates ev (cog_currency cg)) cur = Some (Num r)" "r \<noteq> 0"
    and "fst (get_rates ev (cog_currency cg)) ''GBP'' \<noteq> Some Null"
    and "fst (get_rates ev (cog_currency cg)) ''AED'' \<noteq> Some Null"
  shows "\<exists>e. fst (add_expense ev c a amount cur g ''Couple'' d n cg) = Expense_added e \<and>
             total_rmb e = amount / r \<and>
             sunil_rmb e = amount / r / 2 \<and> shirin_rmb e = amount / r / 2"
proof -
  let ?rs = "fst (get_rates ev (cog_currency cg))"
  have x: "add_amount_rmb ?rs amount cur = Inr (amount / r)"
    using assms(5-7) by (rule add_amount_rmb_divides)
  obtain sh where sh: "add_shares ?rs (amount / r) ''Couple'' = Inr sh"
    using add_shares_returns [OF assms(8,9)] by blast
  have cur: "cur \<in> set CURRENCIES"
    using assms(5) by (auto simp: CURRENCIES_def)
  let ?e = "new_expense ev (next_id (data (cog_db cg))) c a amount cur g ''Couple'' d n (amount / r) sh"
  have "fst (add_expense ev c a amount cur g ''Couple'' d n cg) = Expense_added ?e"
    using assms(1-4) cur x sh accepted_examples(4) by (simp add: add_expense_accepted(1))
  moreover have "total_rmb ?e = amount / r" "sunil_rmb ?e = amount / r / 2"
    "shirin_rmb ?e = amount / r / 2"
    using add_shares_couple [OF sh] by (simp_all add: new_expense_def)
  ultimately show ?thesis by blast
qed

theorem add_expense_divides_by_rate_witness:
  "(''Beijing'' \<in> set CITIES \<and> ''Food'' \<in> set CATEGORIES \<and>
    \<not> invalid_date (offline_env Write_ok) None \<and> (0::real) < 100 \<and>
    ''GBP'' \<in> {''GBP'', ''AED'', ''USD'', ''EUR''} \<and>
    fst (get_rates (offline_env Write_ok) (cog_currency (sample_cog (1 / 2)))) ''GBP'' =
      Some (Num (1 / 2)) \<and>
    (1 / 2 :: real) \<noteq> 0 \<and>
    fst (get_rates (offline_env Write_ok) (cog_currency (sample_cog (1 / 2)))) ''GBP'' \<noteq> Some Null \<and>
    fst (get_rates (offline_env Write_ok) (cog_currency (sample_cog (1 / 2)))) ''AED'' \<noteq> Some Null) \<and>
   (\<exists>e. fst (add_expense (offline_env Write_ok) ''Beijing'' ''Tea'' 100 ''GBP'' ''Food'' ''Couple''
             None None (sample_cog (1 / 2))) = Expense_added e \<and>
        total_rmb e = 200 \<and> sunil_rmb e = 100 \<and> shirin_rmb e = 100)"
proof -
  have h: "\<not> invalid_date (offline_env Write_ok) None" "(0::real) < 100"
    "''GBP'' \<in> {''GBP'', ''AED'', ''USD'', ''EUR''}"
    "fst (get_rates (offline_env Write_ok) (cog_currency (sample_cog (1 / 2)))) ''GBP'' =
       Some (Num (1 / 2))"
    "(1 / 2 :: real) \<noteq> 0"
    "fst (get_rates (offline_env Write_ok) (cog_currency (sample_cog (1 / 2)))) ''GBP'' \<noteq> Some Null"
    "fst (get_rates (offline_env Write_ok) (cog_currency (sample_cog (1 / 2)))) ''AED'' \<noteq> Some Null"
    by (simp_all add: sample_cog_def get_rates_offline) (simp_all add: sample_converter_def)
  show ?thesis
    using add_expense_divides_by_rate [OF accepted_examples(1,2) h, of "''Tea''" None]
      accepted_examples h
    by simp
qed

text \<open>
  Claim C8. Exporting the store, clearing it and importing the exported dictionary
  gives back the same records in the same order and the same \<open>next_id\<close>: the dictionary
  in memory is the original one with only \<open>last_updated\<close> set to the time of the
  import. In between, the cleared store is empty with \<open>next_id\<close> 1. This holds whatever
  happens to the two file writes.
\<close>

theorem export_clear_import_roundtrip:
  "(let snapshot = export_data t0 db;
        (cleared, db1) = clear_all_data t1 w1 db;
        (imported, db2) = import_data t2 w2 snapshot db1
    in cleared \<and> imported \<and>
       expenses (data db1) = [] \<and> next_id (data db1) = 1 \<and>
       expenses (data db2) = expenses (data db) \<and>
       next_id (data db2) = next_id (data db) \<and>
       data db2 = (data db)\<lparr>data_last_updated := t2\<rparr>)"
  by (simp add: export_data_def clear_all_data_def import_data_def data_save_data)

text \<open>
  Claim C9, at the input where the code departs from it. Record 1 of the sample store
  has an empty document list. \<open>delete_document\<close> for that record and the filename
  \<open>receipt.pdf\<close> removes nothing, saves the store and returns \<open>True\<close>: it returns
  \<open>True\<close> for every record that has the id and a \<open>documents\<close> key, whether or not an
  entry had the filename.
\<close>

theorem delete_document_reports_success_without_match:
  "delete_document ''2025-01-03T12:00:00'' Write_ok 1 ''receipt.pdf'' sample_db =
     (True, \<lparr>data = sample_data\<lparr>data_last_updated := ''2025-01-03T12:00:00''\<rparr>,
             db_file = Some (sample_data\<lparr>data_last_updated := ''2025-01-03T12:00:00''\<rparr>)\<rparr>)"
  by (simp add: delete_document_def save_data_def Let_def written_def sample_db_def
        sample_data_def couple_expense_def)

text \<open>
  Claim C10. An empty string given as the city filter or as the category filter selects
  exactly what the absent filter selects, in the same order: the listing never narrows
  to the records whose city or category is the empty string.
\<close>

theorem get_expenses_empty_filter_is_absent:
  "get_expenses (Some []) g s t db = get_expenses None g s t db \<and>
   get_expenses c (Some []) s t db = get_expenses c None s t db \<and>
   get_expenses (Some []) (Some []) s t db = get_expenses None None s t db"
  by (simp add: get_expenses_def filter_loop_filter)

end
